theory Spec2Isabelle
  imports Complex_Main "HOL-Library.AList"
begin

section \<open>Wind-zone margins: getRecommendedMargins\<close>

text \<open>
  Modelled from the spec: the enums \<open>WindZone\<close> and \<open>RoofType\<close> and the record
  \<open>Margins\<close> are declared in \<open>../types\<close>, which is not among the sources. The wind zone is
  the spec's five-valued ordinal. The roof type has the four members the function names,
  and \<open>ROOF_OTHER\<close> stands for any further member of the enum (the \<open>switch\<close> on the roof
  type has no \<open>default\<close>, so such a member leaves both margins as they are).
  Margins are whole millimetres.
\<close>

datatype WindZone = ZONE_1 | ZONE_2 | ZONE_3 | ZONE_4 | ZONE_5

datatype RoofType =
  TUILE_MECANIQUE | TUILE_PLATE | TUILE_CANAL | FIBROCIMENT | ROOF_OTHER string

record Margins =
  top' :: int
  bottom :: int
  left :: int
  right :: int

text \<open>
  The function body, statement by statement: \<open>baseMargin\<close> is set by the first
  \<open>switch\<close> (every zone of the type has a \<open>case\<close>, so the initial 300 is always
  overwritten), \<open>sideMargin\<close> and \<open>topBottomMargin\<close> start from it, and the second
  \<open>switch\<close> adds to \<open>sideMargin\<close> only.
\<close>

definition getRecommendedMargins :: "RoofType \<Rightarrow> WindZone \<Rightarrow> Margins" where
  "getRecommendedMargins roofType windZone =
     (let baseMargin = (case windZone of
            ZONE_1 \<Rightarrow> 300
          | ZONE_2 \<Rightarrow> 300
          | ZONE_3 \<Rightarrow> 400
          | ZONE_4 \<Rightarrow> 500
          | ZONE_5 \<Rightarrow> 600);
          sideMargin0 = baseMargin;
          topBottomMargin = baseMargin;
          sideMargin = (case roofType of
            TUILE_MECANIQUE \<Rightarrow> sideMargin0
          | TUILE_PLATE \<Rightarrow> sideMargin0
          | TUILE_CANAL \<Rightarrow> sideMargin0 + 50
          | FIBROCIMENT \<Rightarrow> sideMargin0 + 100
          | ROOF_OTHER _ \<Rightarrow> sideMargin0)
      in \<lparr>top' = topBottomMargin, bottom = topBottomMargin,
          left = sideMargin, right = sideMargin\<rparr>)"

text \<open>The table of the specification, written from its words (section 4.6).\<close>

fun spec_baseMargin :: "WindZone \<Rightarrow> int" where
  "spec_baseMargin ZONE_1 = 300"
| "spec_baseMargin ZONE_2 = 300"
| "spec_baseMargin ZONE_3 = 400"
| "spec_baseMargin ZONE_4 = 500"
| "spec_baseMargin ZONE_5 = 600"

fun spec_roofAdjustment :: "RoofType \<Rightarrow> int" where
  "spec_roofAdjustment TUILE_CANAL = 50"
| "spec_roofAdjustment FIBROCIMENT = 100"
| "spec_roofAdjustment _ = 0"

definition spec_margins :: "RoofType \<Rightarrow> WindZone \<Rightarrow> Margins" where
  "spec_margins roofType windZone =
     \<lparr>top' = spec_baseMargin windZone, bottom = spec_baseMargin windZone,
      left = spec_baseMargin windZone + spec_roofAdjustment roofType,
      right = spec_baseMargin windZone + spec_roofAdjustment roofType\<rparr>"

section \<open>The values of the report component (PdfReport)\<close>

text \<open>
  The component reads numeric fields that may be absent and tests them by truthiness.
  A field is modelled as one of the values below: a number, or one of the falsy values
  that are not numbers. A number is a finite double (embedded in the reals: comparison,
  maximum and the test against zero are exact on doubles, and the two zeros are one
  value here), an infinity or NaN. Truthy values that are not numbers (non-empty strings,
  \<open>true\<close>, objects) are not values of these fields in the model.
\<close>

datatype js_number = Finite real | PosInfinity | NegInfinity | NaN

datatype js_value =
  JS_undefined | JS_null | JS_false | JS_empty_string | JS_number js_number

text \<open>ToBoolean: of the values above, only a number other than 0 and NaN is truthy.\<close>

fun truthy :: "js_value \<Rightarrow> bool" where
  "truthy (JS_number (Finite r)) = (r \<noteq> 0)"
| "truthy (JS_number PosInfinity) = True"
| "truthy (JS_number NegInfinity) = True"
| "truthy (JS_number NaN) = False"
| "truthy JS_undefined = False"
| "truthy JS_null = False"
| "truthy JS_false = False"
| "truthy JS_empty_string = False"

text \<open>
  \<open>v || d\<close> for a number \<open>d\<close>: the value \<open>v\<close> when it is truthy, which makes it a number,
  and \<open>d\<close> otherwise. The result is always a number.
\<close>

fun js_or :: "js_value \<Rightarrow> js_number \<Rightarrow> js_number" where
  "js_or (JS_number n) d = (if truthy (JS_number n) then n else d)"
| "js_or _ d = d"

text \<open>\<open>v == null\<close> (loose equality): true of \<open>null\<close> and \<open>undefined\<close> only.\<close>

fun eq_null :: "js_value \<Rightarrow> bool" where
  "eq_null JS_undefined = True"
| "eq_null JS_null = True"
| "eq_null _ = False"

text \<open>ToNumber on the values of the model.\<close>

fun ToNumber :: "js_value \<Rightarrow> js_number" where
  "ToNumber JS_undefined = NaN"
| "ToNumber JS_null = Finite 0"
| "ToNumber JS_false = Finite 0"
| "ToNumber JS_empty_string = Finite 0"
| "ToNumber (JS_number n) = n"

text \<open>The order of the numbers; every comparison with NaN is false.\<close>

fun js_le :: "js_number \<Rightarrow> js_number \<Rightarrow> bool" where
  "js_le NaN _ = False"
| "js_le _ NaN = False"
| "js_le NegInfinity _ = True"
| "js_le _ PosInfinity = True"
| "js_le (Finite a) (Finite b) = (a \<le> b)"
| "js_le (Finite a) NegInfinity = False"
| "js_le PosInfinity (Finite b) = False"
| "js_le PosInfinity NegInfinity = False"

text \<open>\<open>a >= b\<close> on values: both sides converted to numbers, false when either is NaN.\<close>

definition js_ge :: "js_value \<Rightarrow> js_value \<Rightarrow> bool" where
  "js_ge a b = js_le (ToNumber b) (ToNumber a)"

text \<open>
  \<open>Math.max\<close>: starts from \<open>-Infinity\<close> (its value on no argument), is NaN as soon as
  one argument is NaN, and is the largest argument otherwise.
\<close>

fun js_max2 :: "js_number \<Rightarrow> js_number \<Rightarrow> js_number" where
  "js_max2 NaN _ = NaN"
| "js_max2 _ NaN = NaN"
| "js_max2 PosInfinity _ = PosInfinity"
| "js_max2 _ PosInfinity = PosInfinity"
| "js_max2 NegInfinity b = b"
| "js_max2 a NegInfinity = a"
| "js_max2 (Finite a) (Finite b) = Finite (max a b)"

definition Math_max :: "js_number list \<Rightarrow> js_number" where
  "Math_max xs = foldl js_max2 NegInfinity xs"

subsection \<open>The records the component receives\<close>

text \<open>
  Modelled from the spec: the types \<open>Project\<close>, \<open>CompatibilityReport\<close> and
  \<open>MicroBranchesReport\<close> are declared in \<open>../types\<close> and \<open>../services\<close>, which are not
  among the sources. The records below have the fields that the computations of lines
  54 to 81 read; an optional field or a nullable record is an \<open>option\<close>.
\<close>

record ConfiguredString =
  mpptIndex :: js_value
  panelCount :: js_value

record InverterConfig =
  phase :: string
  configuredStrings :: "ConfiguredString list option"

record Project =
  inverterConfig :: InverterConfig

record ReportDetails =
  vocCold :: js_value
  vmpHot :: js_value
  vmaxInverter :: js_value
  vminMppt :: js_value

record CompatibilityReport =
  details :: "ReportDetails option"

record MicroBranch =
  branchId :: string
  dropPercent :: js_value

record MicroBranchesReport =
  branches :: "MicroBranch list option"

subsection \<open>Report values with their fallbacks (lines 54 to 64)\<close>

definition isThreePhase :: "Project \<Rightarrow> bool" where
  "isThreePhase project = (phase (inverterConfig project) = ''Tri'')"

text \<open>\<open>report?.details?.f\<close>: \<open>undefined\<close> when the report is null or has no details.\<close>

definition report_details_field ::
  "(ReportDetails \<Rightarrow> js_value) \<Rightarrow> CompatibilityReport option \<Rightarrow> js_value" where
  "report_details_field f report =
     (case report of
        None \<Rightarrow> JS_undefined
      | Some r \<Rightarrow> (case details r of None \<Rightarrow> JS_undefined | Some d \<Rightarrow> f d))"

definition vocColdString :: "CompatibilityReport option \<Rightarrow> js_number" where
  "vocColdString report = js_or (report_details_field vocCold report) (Finite 0)"

definition vmpHotString :: "CompatibilityReport option \<Rightarrow> js_number" where
  "vmpHotString report = js_or (report_details_field vmpHot report) (Finite 0)"

definition invVmaxLimit :: "Project \<Rightarrow> CompatibilityReport option \<Rightarrow> js_number" where
  "invVmaxLimit project report =
     js_or (report_details_field vmaxInverter report)
       (if isThreePhase project then Finite 1000 else Finite 600)"

definition invVmpMin :: "CompatibilityReport option \<Rightarrow> js_number" where
  "invVmpMin report = js_or (report_details_field vminMppt report) (Finite 80)"

subsection \<open>Parallel strings per MPPT and the gPV fuse rule (lines 69 to 77)\<close>

text \<open>\<open>project.inverterConfig.configuredStrings || []\<close> (an array, even empty, is truthy).\<close>

definition configuredStrings' :: "Project \<Rightarrow> ConfiguredString list" where
  "configuredStrings' project =
     (case configuredStrings (inverterConfig project) of None \<Rightarrow> [] | Some ss \<Rightarrow> ss)"

text \<open>
  \<open>Number(s.mpptIndex || 1)\<close>: the operand of \<open>Number\<close> is a number already, so the
  conversion leaves it as it is.
\<close>

definition mpptIdx :: "ConfiguredString \<Rightarrow> js_number" where
  "mpptIdx s = js_or (mpptIndex s) (Finite 1)"

text \<open>
  The accumulator \<open>acc\<close> is an object used as a dictionary from the index to a count. It
  is an association list keyed by the number: the property key is the number's string,
  and different numbers have different strings. A new key is added at the end; an
  object lists its integer keys in ascending order first, which the list does not follow,
  and the reduction over the counts does not depend on their order (lemma
  \<open>foldl_max_or_0\<close>). A count is a natural number (the reducer only ever stores
  \<open>(acc[idx] || 0) + 1\<close>).
\<close>

type_synonym counts = "(js_number \<times> nat) list"

text \<open>\<open>acc[idx] || 0\<close>: 0 for a key that is not there, and for a stored 0.\<close>

definition count_or_0 :: "counts \<Rightarrow> js_number \<Rightarrow> nat" where
  "count_or_0 acc idx =
     (case map_of acc idx of None \<Rightarrow> 0 | Some c \<Rightarrow> (if c \<noteq> 0 then c else 0))"

definition count_step :: "counts \<Rightarrow> ConfiguredString \<Rightarrow> counts" where
  "count_step acc s =
     (let idx = mpptIdx s in AList.update idx (count_or_0 acc idx + 1) acc)"

definition mpptParallelCounts :: "ConfiguredString list \<Rightarrow> counts" where
  "mpptParallelCounts strings = foldl count_step [] strings"

definition Object_values :: "counts \<Rightarrow> nat list" where
  "Object_values acc = map snd acc"

text \<open>\<open>Math.max(m, Number(v) || 0)\<close> on counts.\<close>

definition maxParallelStringsOnAnyMppt :: "ConfiguredString list \<Rightarrow> nat" where
  "maxParallelStringsOnAnyMppt strings =
     foldl (\<lambda>m v. max m (if v \<noteq> 0 then v else 0)) 0
       (Object_values (mpptParallelCounts strings))"

definition gpvRequired :: "Project \<Rightarrow> bool" where
  "gpvRequired project = (2 < maxParallelStringsOnAnyMppt (configuredStrings' project))"

subsection \<open>Cumulated production drop (lines 79 to 81)\<close>

definition hasMicroBranches :: "MicroBranchesReport option \<Rightarrow> bool" where
  "hasMicroBranches microBranchesReport =
     (case microBranchesReport of
        None \<Rightarrow> False
      | Some r \<Rightarrow> (case branches r of None \<Rightarrow> False | Some bs \<Rightarrow> 0 < length bs))"

text \<open>\<open>microBranchesReport!.branches\<close>, read only when \<open>hasMicroBranches\<close> holds.\<close>

definition branches' :: "MicroBranchesReport option \<Rightarrow> MicroBranch list" where
  "branches' microBranchesReport =
     (case microBranchesReport of
        None \<Rightarrow> []
      | Some r \<Rightarrow> (case branches r of None \<Rightarrow> [] | Some bs \<Rightarrow> bs))"

definition worstBranchDrop :: "MicroBranchesReport option \<Rightarrow> js_number" where
  "worstBranchDrop microBranchesReport =
     (if hasMicroBranches microBranchesReport
      then Math_max (map (\<lambda>b. js_or (dropPercent b) (Finite 0)) (branches' microBranchesReport))
      else Finite 0)"

text \<open>
  The sum of two doubles is rounded, which the reals do not model: the addition of the
  runtime is the parameter \<open>add\<close>, and what is proved holds for whatever it computes.
\<close>

definition totalProductionDrop ::
  "(js_number \<Rightarrow> js_number \<Rightarrow> js_number) \<Rightarrow> MicroBranchesReport option \<Rightarrow> js_value
     \<Rightarrow> js_number" where
  "totalProductionDrop add microBranchesReport voltageDrop =
     (if hasMicroBranches microBranchesReport
      then add (worstBranchDrop microBranchesReport) (js_or voltageDrop (Finite 0))
      else js_or voltageDrop (Finite 0))"

subsection \<open>The subscription note (lines 247 to 256)\<close>

text \<open>
  The status record that \<open>getSubscriptionStatus\<close> returns, with the fields the note reads
  (its \<open>phase\<close> is only printed).
\<close>

record SubscriptionStatus =
  recommendedKva :: js_value
  subscribedKva :: js_value
  isOk :: bool

text \<open>
  Modelled from the spec: \<open>getSubscriptionStatus\<close> is in
  \<open>../services/subscriptionService\<close>, which is not among the sources. The spec gives the
  rule \<open>isOk = subscribedKva != null && subscribedKva >= recommendedKva\<close>; how the two
  capacities come from the project is not modelled, they are the arguments.
\<close>

definition spec_isOk :: "js_value \<Rightarrow> js_value \<Rightarrow> bool" where
  "spec_isOk subscribed recommended =
     (\<not> eq_null subscribed \<and> js_ge subscribed recommended)"

definition spec_subscriptionStatus :: "js_value \<Rightarrow> js_value \<Rightarrow> SubscriptionStatus" where
  "spec_subscriptionStatus recommended subscribed =
     \<lparr>recommendedKva = recommended, subscribedKva = subscribed,
      isOk = spec_isOk subscribed recommended\<rparr>"

text \<open>
  The three notes the component can print under the cover page, from the source: the
  capacity is not given, it is given and compatible (green), it is given and has to be
  raised (red).
\<close>

datatype SubscriptionNote =
  Non_renseignee | Compatible js_value | A_faire_evoluer js_value

definition subscriptionNote :: "SubscriptionStatus \<Rightarrow> SubscriptionNote" where
  "subscriptionNote subscriptionStatus =
     (if eq_null (subscribedKva subscriptionStatus) then Non_renseignee
      else if isOk subscriptionStatus then Compatible (subscribedKva subscriptionStatus)
      else A_faire_evoluer (subscribedKva subscriptionStatus))"

subsection \<open>Example inputs\<close>

text \<open>
  A configured string of ten panels on the given MPPT index, a project with such strings,
  a micro-branches report with the given drops, and the addition where it is exact.
\<close>

definition string_on :: "js_value \<Rightarrow> ConfiguredString" where
  "string_on i = \<lparr>mpptIndex = i, panelCount = JS_number (Finite 10)\<rparr>"

definition project_with :: "string \<Rightarrow> js_value list \<Rightarrow> Project" where
  "project_with ph is =
     \<lparr>inverterConfig = \<lparr>phase = ph, configuredStrings = Some (map string_on is)\<rparr>\<rparr>"

definition report_with :: "js_value list \<Rightarrow> MicroBranchesReport option" where
  "report_with ds =
     Some \<lparr>branches = Some (map (\<lambda>d. \<lparr>branchId = ''b'', dropPercent = d\<rparr>) ds)\<rparr>"

definition exact_add :: "js_number \<Rightarrow> js_number \<Rightarrow> js_number" where
  "exact_add a b = (case (a, b) of (Finite x, Finite y) \<Rightarrow> Finite (x + y) | _ \<Rightarrow> NaN)"

section \<open>Properties of the margins, of the fallbacks and of the counting\<close>

lemma getRecommendedMargins_spec_margins:
  "getRecommendedMargins roofType windZone = spec_margins roofType windZone"
  by (cases windZone; cases roofType)
     (simp_all add: getRecommendedMargins_def spec_margins_def)

lemma falsy_js_or: "\<not> truthy v \<Longrightarrow> js_or v d = d"
  by (cases v) simp_all

lemma eq_null_js_or: "eq_null v \<Longrightarrow> js_or v d = d"
  by (cases v) simp_all

lemma js_or_number_0: "n \<noteq> NaN \<Longrightarrow> js_or (JS_number n) (Finite 0) = n"
  by (cases n) simp_all

lemma js_or_1_not_0: "js_or v (Finite 1) \<noteq> Finite 0"
proof (cases v)
  case (JS_number n)
  then show ?thesis by (cases n) simp_all
qed simp_all

lemma mpptIdx_not_0: "mpptIdx s \<noteq> Finite 0"
  by (simp add: mpptIdx_def js_or_1_not_0)

lemma truthy_index: "truthy (mpptIndex s) \<Longrightarrow> mpptIndex s = JS_number (mpptIdx s)"
  by (cases "mpptIndex s") (simp_all add: mpptIdx_def)

subsection \<open>The dictionary holds, for each index, the number of strings on it\<close>

lemma count_or_0_eq: "count_or_0 acc k = (case map_of acc k of None \<Rightarrow> 0 | Some c \<Rightarrow> c)"
  by (simp add: count_or_0_def split: option.splits)

lemma count_or_0_step:
  "count_or_0 (count_step acc s) k = count_or_0 acc k + (if mpptIdx s = k then 1 else 0)"
  by (simp add: count_step_def count_or_0_eq update_conv' Let_def)

lemma count_or_0_foldl:
  "count_or_0 (foldl count_step acc ss) k
     = count_or_0 acc k + length (filter (\<lambda>s. mpptIdx s = k) ss)"
  by (induction ss arbitrary: acc) (simp_all add: count_or_0_step)

lemma count_or_0_mpptParallelCounts:
  "count_or_0 (mpptParallelCounts ss) k = length (filter (\<lambda>s. mpptIdx s = k) ss)"
  using count_or_0_foldl [of "[]" ss k]
  by (simp add: mpptParallelCounts_def count_or_0_def)

lemma map_of_count_step:
  "map_of (count_step acc s) = (map_of acc)(mpptIdx s \<mapsto> count_or_0 acc (mpptIdx s) + 1)"
  by (simp add: count_step_def Let_def update_conv')

lemma mpptParallelCounts_snoc:
  "mpptParallelCounts (ss @ [s]) = count_step (mpptParallelCounts ss) s"
  by (simp add: mpptParallelCounts_def)

lemma map_of_mpptParallelCounts:
  "map_of (mpptParallelCounts ss) k =
     (if filter (\<lambda>s. mpptIdx s = k) ss = [] then None
      else Some (length (filter (\<lambda>s. mpptIdx s = k) ss)))"
proof (induction ss rule: rev_induct)
  case Nil
  show ?case by (simp add: mpptParallelCounts_def)
next
  case (snoc s ss)
  show ?case
    by (simp add: mpptParallelCounts_snoc map_of_count_step count_or_0_mpptParallelCounts snoc)
qed

lemma distinct_count_step:
  "distinct (map fst acc) \<Longrightarrow> distinct (map fst (count_step acc s))"
  by (simp add: count_step_def Let_def distinct_update)

lemma distinct_foldl_count_step:
  "distinct (map fst acc) \<Longrightarrow> distinct (map fst (foldl count_step acc ss))"
  by (induction ss arbitrary: acc) (simp_all add: distinct_count_step)

lemma distinct_mpptParallelCounts: "distinct (map fst (mpptParallelCounts ss))"
  by (simp add: mpptParallelCounts_def distinct_foldl_count_step)

text \<open>The counts depend on the strings through their indices only.\<close>

lemma foldl_count_step_cong:
  "map mpptIdx ss = map mpptIdx ss' \<Longrightarrow> foldl count_step acc ss = foldl count_step acc ss'"
proof (induction ss arbitrary: ss' acc)
  case Nil
  then show ?case by simp
next
  case (Cons s ss)
  then obtain t ts where ss': "ss' = t # ts" and t: "mpptIdx s = mpptIdx t"
    and ts: "map mpptIdx ss = map mpptIdx ts"
    by (cases ss') auto
  have "count_step acc s = count_step acc t" by (simp add: count_step_def t)
  with Cons.IH [OF ts] show ?case by (simp add: ss')
qed

subsection \<open>The reduction over the counts is their maximum, in any order\<close>

lemma foldl_max_or_0:
  "n < foldl (\<lambda>m v. max m (if v \<noteq> 0 then v else 0)) m0 vs
     \<longleftrightarrow> n < m0 \<or> (\<exists>v\<in>set vs. n < (v::nat))"
  by (induction vs arbitrary: m0) auto

lemma maxParallel_gt:
  "n < maxParallelStringsOnAnyMppt ss
     \<longleftrightarrow> (\<exists>k. n < length (filter (\<lambda>s. mpptIdx s = k) ss))"
proof -
  let ?al = "mpptParallelCounts ss"
  have "n < maxParallelStringsOnAnyMppt ss \<longleftrightarrow> (\<exists>v\<in>set (map snd ?al). n < v)"
    unfolding maxParallelStringsOnAnyMppt_def Object_values_def foldl_max_or_0 by simp
  also have "\<dots> \<longleftrightarrow> (\<exists>k. n < count_or_0 ?al k)"
  proof
    assume "\<exists>v\<in>set (map snd ?al). n < v"
    then obtain k v where kv: "(k, v) \<in> set ?al" "n < v" by auto
    then have "map_of ?al k = Some v"
      using distinct_mpptParallelCounts by simp
    then have "count_or_0 ?al k = v" by (simp add: count_or_0_eq)
    with kv show "\<exists>k. n < count_or_0 ?al k" by blast
  next
    assume "\<exists>k. n < count_or_0 ?al k"
    then obtain k where k: "n < count_or_0 ?al k" ..
    then obtain v where "map_of ?al k = Some v" "n < v"
      by (auto simp: count_or_0_eq split: option.splits)
    then have "(k, v) \<in> set ?al" by (simp add: map_of_SomeD)
    with \<open>n < v\<close> show "\<exists>v\<in>set (map snd ?al). n < v" by force
  qed
  finally show ?thesis by (simp add: count_or_0_mpptParallelCounts)
qed

subsection \<open>Math.max on numbers without NaN\<close>

lemma js_le_refl: "a \<noteq> NaN \<Longrightarrow> js_le a a"
  by (cases a) simp_all

lemma js_le_trans: "js_le a b \<Longrightarrow> js_le b c \<Longrightarrow> js_le a c"
  by (cases a; cases b; cases c) simp_all

lemma js_max2_cases: "a \<noteq> NaN \<Longrightarrow> b \<noteq> NaN \<Longrightarrow> js_max2 a b = a \<or> js_max2 a b = b"
  by (cases a; cases b) (simp_all add: max_def)

lemma js_max2_ge1: "a \<noteq> NaN \<Longrightarrow> b \<noteq> NaN \<Longrightarrow> js_le a (js_max2 a b)"
  by (cases a; cases b) simp_all

lemma js_max2_ge2: "a \<noteq> NaN \<Longrightarrow> b \<noteq> NaN \<Longrightarrow> js_le b (js_max2 a b)"
  by (cases a; cases b) simp_all

lemma js_le_NegInfinity: "js_le x NegInfinity \<Longrightarrow> x = NegInfinity"
  by (cases x) simp_all

lemma foldl_js_max2:
  assumes "a \<noteq> NaN" "NaN \<notin> set xs"
  shows "foldl js_max2 a xs \<in> insert a (set xs)
       \<and> js_le a (foldl js_max2 a xs)
       \<and> (\<forall>x\<in>set xs. js_le x (foldl js_max2 a xs))"
  using assms
proof (induction xs arbitrary: a)
  case Nil
  then show ?case by (simp add: js_le_refl)
next
  case (Cons x xs)
  let ?b = "js_max2 a x"
  from Cons.prems have x: "x \<noteq> NaN" and xs: "NaN \<notin> set xs" by auto
  from js_max2_cases [OF Cons.prems(1) x] have b: "?b \<noteq> NaN" "?b = a \<or> ?b = x"
    using Cons.prems(1) x by auto
  note IH = Cons.IH [OF b(1) xs]
  have "js_le a (foldl js_max2 ?b xs)"
    using IH js_max2_ge1 [OF Cons.prems(1) x] by (blast intro: js_le_trans)
  moreover have "js_le x (foldl js_max2 ?b xs)"
    using IH js_max2_ge2 [OF Cons.prems(1) x] by (blast intro: js_le_trans)
  ultimately show ?case using IH b(2) by auto
qed

lemma Math_max_greatest:
  assumes "xs \<noteq> []" "NaN \<notin> set xs"
  shows "Math_max xs \<in> set xs \<and> (\<forall>x\<in>set xs. js_le x (Math_max xs))"
proof -
  from foldl_js_max2 [of NegInfinity xs] assms(2)
  have m: "Math_max xs \<in> insert NegInfinity (set xs)"
    and ub: "\<forall>x\<in>set xs. js_le x (Math_max xs)"
    by (simp_all add: Math_max_def)
  have "Math_max xs \<in> set xs"
  proof (cases "Math_max xs = NegInfinity")
    case True
    from assms(1) obtain x where x: "x \<in> set xs" by (cases xs) auto
    with ub True have "x = NegInfinity" by (simp add: js_le_NegInfinity)
    with x True show ?thesis by simp
  next
    case False
    with m show ?thesis by simp
  qed
  with ub show ?thesis by simp
qed

lemma hasMicroBranches_iff: "hasMicroBranches rep \<longleftrightarrow> branches' rep \<noteq> []"
  by (simp add: hasMicroBranches_def branches'_def split: option.splits)

lemmas counting_defs = gpvRequired_def maxParallelStringsOnAnyMppt_def Object_values_def
  mpptParallelCounts_def count_step_def count_or_0_def mpptIdx_def configuredStrings'_def
  project_with_def string_on_def Let_def

section \<open>The claims of the specification\<close>

text \<open>
  C1. For every wind zone and roof type, getRecommendedMargins returns the margins of the
  specification's table (base margin 300 mm for zones 1 and 2, 400 mm for zone 3, 500 mm
  for zone 4, 600 mm for zone 5, the roof-type supplement on the sides); in particular
  zone 5 with FIBROCIMENT gives 600/600/700/700 and zone 1 with TUILE_MECANIQUE gives
  300/300/300/300.
\<close>

theorem getRecommendedMargins_table:
  "getRecommendedMargins roofType windZone = spec_margins roofType windZone
   \<and> getRecommendedMargins FIBROCIMENT ZONE_5
       = \<lparr>top' = 600, bottom = 600, left = 700, right = 700\<rparr>
   \<and> getRecommendedMargins TUILE_MECANIQUE ZONE_1
       = \<lparr>top' = 300, bottom = 300, left = 300, right = 300\<rparr>"
  by (cases windZone; cases roofType)
     (simp_all add: getRecommendedMargins_def spec_margins_def)

text \<open>
  C2. For every list of configured strings, the gPV fuses are required if and only if
  some MPPT index has more than two configured strings assigned to it. The index a string
  is assigned to is \<open>mpptIdx\<close>: its \<open>mpptIndex\<close>, or 1 when that is missing. When every
  string has a truthy \<open>mpptIndex\<close>, this is the grouping by the \<open>mpptIndex\<close> field itself.
\<close>

theorem gpvRequired_iff_more_than_two:
  "(gpvRequired project
      \<longleftrightarrow> (\<exists>k. 2 < length (filter (\<lambda>s. mpptIdx s = k) (configuredStrings' project))))
   \<and> ((\<forall>s\<in>set (configuredStrings' project). truthy (mpptIndex s)) \<longrightarrow>
        (gpvRequired project
          \<longleftrightarrow> (\<exists>v. 2 < length (filter (\<lambda>s. mpptIndex s = v) (configuredStrings' project)))))"
proof (intro conjI impI)
  let ?ss = "configuredStrings' project"
  show g: "gpvRequired project \<longleftrightarrow> (\<exists>k. 2 < length (filter (\<lambda>s. mpptIdx s = k) ?ss))"
    by (simp add: gpvRequired_def maxParallel_gt)
  assume wf: "\<forall>s\<in>set ?ss. truthy (mpptIndex s)"
  have "(mpptIndex s = JS_number k) = (mpptIdx s = k)" if "s \<in> set ?ss" for s k
  proof -
    from wf that have "mpptIndex s = JS_number (mpptIdx s)" by (simp add: truthy_index)
    then show ?thesis by (metis js_value.inject)
  qed
  then have same:
    "filter (\<lambda>s. mpptIndex s = JS_number k) ?ss = filter (\<lambda>s. mpptIdx s = k) ?ss" for k
    by (intro filter_cong) simp_all
  have "(\<exists>v. 2 < length (filter (\<lambda>s. mpptIndex s = v) ?ss))
      \<longleftrightarrow> (\<exists>k. 2 < length (filter (\<lambda>s. mpptIdx s = k) ?ss))"
  proof
    assume "\<exists>v. 2 < length (filter (\<lambda>s. mpptIndex s = v) ?ss)"
    then obtain v where v: "2 < length (filter (\<lambda>s. mpptIndex s = v) ?ss)" ..
    then have "filter (\<lambda>s. mpptIndex s = v) ?ss \<noteq> []" by auto
    then obtain s where "s \<in> set ?ss" "mpptIndex s = v"
      by (auto simp: filter_empty_conv)
    with wf have "v = JS_number (mpptIdx s)" using truthy_index by blast
    with v same show "\<exists>k. 2 < length (filter (\<lambda>s. mpptIdx s = k) ?ss)" by metis
  next
    assume "\<exists>k. 2 < length (filter (\<lambda>s. mpptIdx s = k) ?ss)"
    then show "\<exists>v. 2 < length (filter (\<lambda>s. mpptIndex s = v) ?ss)"
      using same by metis
  qed
  with g show "gpvRequired project
      \<longleftrightarrow> (\<exists>v. 2 < length (filter (\<lambda>s. mpptIndex s = v) ?ss))" by simp
qed

text \<open>
  The examples of the specification: three strings on MPPT 1 and one on MPPT 2 require
  the fuses, two and two do not.
\<close>

theorem gpvRequired_iff_more_than_two_witness:
  "list_all (\<lambda>s. truthy (mpptIndex s))
     (configuredStrings' (project_with ''Mono''
        [JS_number (Finite 1), JS_number (Finite 1), JS_number (Finite 2), JS_number (Finite 1)]))
   \<and> gpvRequired (project_with ''Mono''
        [JS_number (Finite 1), JS_number (Finite 1), JS_number (Finite 2), JS_number (Finite 1)])
   \<and> (\<exists>v. 2 < length (filter (\<lambda>s. mpptIndex s = v) (configuredStrings' (project_with ''Mono''
        [JS_number (Finite 1), JS_number (Finite 1), JS_number (Finite 2), JS_number (Finite 1)]))))
   \<and> \<not> gpvRequired (project_with ''Mono''
        [JS_number (Finite 1), JS_number (Finite 2), JS_number (Finite 2), JS_number (Finite 1)])"
proof -
  let ?p = "project_with ''Mono''
        [JS_number (Finite 1), JS_number (Finite 1), JS_number (Finite 2), JS_number (Finite 1)]"
  have t: "\<forall>s\<in>set (configuredStrings' ?p). truthy (mpptIndex s)"
    by (simp add: counting_defs)
  have g: "gpvRequired ?p" by (simp add: counting_defs)
  have n: "\<not> gpvRequired (project_with ''Mono''
        [JS_number (Finite 1), JS_number (Finite 2), JS_number (Finite 2), JS_number (Finite 1)])"
    by (simp add: counting_defs)
  from gpvRequired_iff_more_than_two [of ?p] t g
  have "\<exists>v. 2 < length (filter (\<lambda>s. mpptIndex s = v) (configuredStrings' ?p))" by blast
  with t g n show ?thesis by (simp add: list_all_iff)
qed

text \<open>
  C3. When every branch has a number for \<open>dropPercent\<close> and the feeder's drop is a number
  (NaN excluded): with at least one branch, the cumulated production drop is the greatest
  \<open>dropPercent\<close> of the branches plus the feeder's drop; with no branch (no report, no
  list or an empty list) it is the feeder's drop alone.
\<close>

theorem totalProductionDrop_worst_plus_feeder:
  assumes drops: "\<forall>b\<in>set (branches' rep). \<exists>n. dropPercent b = JS_number n \<and> n \<noteq> NaN"
    and v: "v \<noteq> NaN"
  shows "(branches' rep \<noteq> [] \<longrightarrow>
            (\<exists>m\<in>set (branches' rep).
               (\<forall>b\<in>set (branches' rep).
                   js_le (ToNumber (dropPercent b)) (ToNumber (dropPercent m)))
               \<and> totalProductionDrop add rep (JS_number v)
                   = add (ToNumber (dropPercent m)) v))
       \<and> (branches' rep = [] \<longrightarrow> totalProductionDrop add rep (JS_number v) = v)"
proof (intro conjI impI)
  assume ne: "branches' rep \<noteq> []"
  let ?ds = "map (\<lambda>b. ToNumber (dropPercent b)) (branches' rep)"
  have "js_or (dropPercent b) (Finite 0) = ToNumber (dropPercent b)"
    if "b \<in> set (branches' rep)" for b
  proof -
    from drops that obtain n where "dropPercent b = JS_number n" "n \<noteq> NaN" by blast
    then show ?thesis by (simp add: js_or_number_0 del: js_or.simps)
  qed
  then have eq: "map (\<lambda>b. js_or (dropPercent b) (Finite 0)) (branches' rep) = ?ds"
    by simp
  have "NaN \<notin> set ?ds" using drops by auto
  moreover have "?ds \<noteq> []" using ne by simp
  ultimately have "Math_max ?ds \<in> set ?ds" and ub: "\<forall>x\<in>set ?ds. js_le x (Math_max ?ds)"
    using Math_max_greatest by blast+
  then obtain m where m: "m \<in> set (branches' rep)" "Math_max ?ds = ToNumber (dropPercent m)"
    by auto
  have "totalProductionDrop add rep (JS_number v) = add (Math_max ?ds) v"
    using ne v by (simp add: totalProductionDrop_def worstBranchDrop_def hasMicroBranches_iff
        eq js_or_number_0 del: js_or.simps)
  with m ub show "\<exists>m\<in>set (branches' rep).
      (\<forall>b\<in>set (branches' rep). js_le (ToNumber (dropPercent b)) (ToNumber (dropPercent m)))
      \<and> totalProductionDrop add rep (JS_number v) = add (ToNumber (dropPercent m)) v"
    by auto
next
  assume "branches' rep = []"
  then show "totalProductionDrop add rep (JS_number v) = v"
    using v by (simp add: totalProductionDrop_def hasMicroBranches_iff js_or_number_0
        del: js_or.simps)
qed

text \<open>
  Branches at 0.5 and 0.75 percent behind a feeder at 0.25 percent cumulate to 1 percent;
  without branches the drop is the feeder's 0.25 percent.
\<close>

theorem totalProductionDrop_worst_plus_feeder_witness:
  "list_all (\<lambda>b. dropPercent b \<in> {JS_number (Finite (1/2)), JS_number (Finite (3/4))})
     (branches' (report_with [JS_number (Finite (1/2)), JS_number (Finite (3/4))]))
   \<and> totalProductionDrop exact_add
        (report_with [JS_number (Finite (1/2)), JS_number (Finite (3/4))])
        (JS_number (Finite (1/4)))
      = Finite 1
   \<and> totalProductionDrop exact_add (report_with []) (JS_number (Finite (1/4))) = Finite (1/4)
   \<and> totalProductionDrop exact_add None (JS_number (Finite (1/4))) = Finite (1/4)"
  using totalProductionDrop_worst_plus_feeder
      [of "report_with [JS_number (Finite (1/2)), JS_number (Finite (3/4))]"
        "Finite (1/4)" exact_add]
    totalProductionDrop_worst_plus_feeder [of "report_with []" "Finite (1/4)" exact_add]
    totalProductionDrop_worst_plus_feeder [of None "Finite (1/4)" exact_add]
  by (simp add: report_with_def branches'_def exact_add_def)

text \<open>
  C4. When the inverter limits are absent from the report (no report, no details, or the
  field \<open>undefined\<close> or \<open>null\<close>), the component falls back to the defaults and returns a
  value: the limit is 1000 V for a three-phase installation and 600 V otherwise (so for a
  single-phase one), and the minimum MPPT voltage is 80 V.
\<close>

theorem inverter_limit_defaults:
  assumes "eq_null (report_details_field vmaxInverter report)"
    and "eq_null (report_details_field vminMppt report)"
  shows "invVmaxLimit project report
           = (if phase (inverterConfig project) = ''Tri'' then Finite 1000 else Finite 600)
       \<and> invVmpMin report = Finite 80"
  using assms
  by (simp add: invVmaxLimit_def invVmpMin_def isThreePhase_def eq_null_js_or)

theorem inverter_limit_defaults_witness:
  "eq_null (report_details_field vmaxInverter None)
   \<and> eq_null (report_details_field vminMppt (Some \<lparr>details = None\<rparr>))
   \<and> invVmaxLimit (project_with ''Mono'' []) None = Finite 600
   \<and> invVmaxLimit (project_with ''Tri'' []) (Some \<lparr>details = None\<rparr>) = Finite 1000
   \<and> invVmpMin None = Finite 80"
  using inverter_limit_defaults [of None "project_with ''Mono'' []"]
    inverter_limit_defaults [of "Some \<lparr>details = None\<rparr>" "project_with ''Tri'' []"]
  by (simp add: report_details_field_def project_with_def)

text \<open>
  C5. A status whose \<open>subscribedKva\<close> is \<open>null\<close> has \<open>isOk = false\<close> (by the rule of the
  specification, \<open>isOk = subscribedKva != null && subscribedKva >= recommendedKva\<close>) and is
  printed as the note "not given"; a status with a known \<open>subscribedKva\<close> is never printed
  as that note, and when it is not ok it is printed as "to be raised".
\<close>

theorem subscription_unknown_is_distinct:
  "(eq_null (subscribedKva st) \<longrightarrow> subscriptionNote st = Non_renseignee)
   \<and> (\<not> eq_null (subscribedKva st) \<longrightarrow>
        subscriptionNote st \<noteq> Non_renseignee
        \<and> (\<not> isOk st \<longrightarrow> subscriptionNote st = A_faire_evoluer (subscribedKva st)))
   \<and> \<not> isOk (spec_subscriptionStatus recommended JS_null)
   \<and> subscriptionNote (spec_subscriptionStatus recommended JS_null) = Non_renseignee
   \<and> isOk (spec_subscriptionStatus recommended subscribed)
        = (\<not> eq_null subscribed \<and> js_ge subscribed recommended)"
  by (simp add: subscriptionNote_def spec_subscriptionStatus_def spec_isOk_def)

theorem subscription_unknown_is_distinct_witness:
  "subscriptionNote (spec_subscriptionStatus (JS_number (Finite 6)) JS_null) = Non_renseignee
   \<and> \<not> isOk (spec_subscriptionStatus (JS_number (Finite 6)) JS_null)
   \<and> \<not> isOk (spec_subscriptionStatus (JS_number (Finite 9)) (JS_number (Finite 6)))
   \<and> subscriptionNote (spec_subscriptionStatus (JS_number (Finite 9)) (JS_number (Finite 6)))
       = A_faire_evoluer (JS_number (Finite 6))
   \<and> subscriptionNote (spec_subscriptionStatus (JS_number (Finite 6)) (JS_number (Finite 9)))
       = Compatible (JS_number (Finite 9))"
  using subscription_unknown_is_distinct
      [of "spec_subscriptionStatus (JS_number (Finite 6)) JS_null" "JS_number (Finite 6)" JS_null]
    subscription_unknown_is_distinct
      [of "spec_subscriptionStatus (JS_number (Finite 9)) (JS_number (Finite 6))"
        "JS_number (Finite 9)" "JS_number (Finite 6)"]
  by (simp add: spec_subscriptionStatus_def spec_isOk_def js_ge_def subscriptionNote_def)

text \<open>
  C6. A configured string whose \<open>mpptIndex\<close> is missing is counted on MPPT index 1: put
  anywhere in the list, it raises the count of index 1 by one and leaves every other
  entry of the dictionary as it is; it is not dropped, and nothing is counted on index 0.
\<close>

theorem missing_mpptIndex_counts_on_1:
  assumes "mpptIndex s = JS_undefined"
  shows "mpptIdx s = Finite 1
    \<and> map_of (mpptParallelCounts (xs @ s # ys)) (Finite 1)
        = Some (count_or_0 (mpptParallelCounts (xs @ ys)) (Finite 1) + 1)
    \<and> (\<forall>k. k \<noteq> Finite 1 \<longrightarrow>
          map_of (mpptParallelCounts (xs @ s # ys)) k = map_of (mpptParallelCounts (xs @ ys)) k)
    \<and> map_of (mpptParallelCounts (xs @ s # ys)) (Finite 0) = None"
proof -
  have idx: "mpptIdx s = Finite 1" using assms by (simp add: mpptIdx_def)
  then show ?thesis
    by (simp add: map_of_mpptParallelCounts count_or_0_mpptParallelCounts mpptIdx_not_0)
qed

text \<open>A string without index between one on MPPT 2 and one on MPPT 1.\<close>

theorem missing_mpptIndex_counts_on_1_witness:
  "mpptIndex (string_on JS_undefined) = JS_undefined
   \<and> mpptParallelCounts [string_on (JS_number (Finite 2)), string_on JS_undefined,
       string_on (JS_number (Finite 1))]
     = [(Finite 2, 1), (Finite 1, 2)]
   \<and> mpptParallelCounts [string_on (JS_number (Finite 2)), string_on (JS_number (Finite 1))]
     = [(Finite 2, 1), (Finite 1, 1)]"
  using missing_mpptIndex_counts_on_1 [of "string_on JS_undefined"
      "[string_on (JS_number (Finite 2))]" "[string_on (JS_number (Finite 1))]"]
  by (simp add: counting_defs)

text \<open>
  C7. For every wind zone, the roof type changes the left and right margins only, by
  50 mm for TUILE_CANAL, 100 mm for FIBROCIMENT and nothing otherwise; the top and bottom
  margins are the base margin of the zone whatever the roof type.
\<close>

theorem roof_type_changes_sides_only:
  "top' (getRecommendedMargins roofType windZone) = spec_baseMargin windZone
   \<and> bottom (getRecommendedMargins roofType windZone) = spec_baseMargin windZone
   \<and> top' (getRecommendedMargins roofType windZone)
       = top' (getRecommendedMargins roofType' windZone)
   \<and> bottom (getRecommendedMargins roofType windZone)
       = bottom (getRecommendedMargins roofType' windZone)
   \<and> left (getRecommendedMargins roofType windZone)
       = spec_baseMargin windZone
         + (case roofType of TUILE_CANAL \<Rightarrow> 50 | FIBROCIMENT \<Rightarrow> 100 | _ \<Rightarrow> 0)
   \<and> right (getRecommendedMargins roofType windZone)
       = spec_baseMargin windZone
         + (case roofType of TUILE_CANAL \<Rightarrow> 50 | FIBROCIMENT \<Rightarrow> 100 | _ \<Rightarrow> 0)"
  by (cases roofType)
     (simp_all add: getRecommendedMargins_spec_margins spec_margins_def)

text \<open>
  C9. A configured string whose \<open>mpptIndex\<close> is 0, or any other falsy value (\<open>null\<close>, the
  empty string, \<open>false\<close>, NaN), is counted on MPPT index 1, and the resulting dictionary is
  the one obtained with the index missing.
\<close>

theorem falsy_mpptIndex_counts_on_1:
  assumes "mpptIndex s \<in> {JS_number (Finite 0), JS_null, JS_empty_string, JS_false,
             JS_number NaN, JS_undefined}"
  shows "mpptIdx s = Finite 1
    \<and> mpptIdx s = mpptIdx (s\<lparr>mpptIndex := JS_undefined\<rparr>)
    \<and> mpptParallelCounts (xs @ s # ys)
        = mpptParallelCounts (xs @ s\<lparr>mpptIndex := JS_undefined\<rparr> # ys)"
proof -
  have idx: "mpptIdx s = Finite 1" using assms by (auto simp add: mpptIdx_def)
  have u: "mpptIdx (s\<lparr>mpptIndex := JS_undefined\<rparr>) = Finite 1" by (simp add: mpptIdx_def)
  then have "map mpptIdx (xs @ s # ys) = map mpptIdx (xs @ s\<lparr>mpptIndex := JS_undefined\<rparr> # ys)"
    using idx by simp
  then have "mpptParallelCounts (xs @ s # ys)
        = mpptParallelCounts (xs @ s\<lparr>mpptIndex := JS_undefined\<rparr> # ys)"
    unfolding mpptParallelCounts_def by (rule foldl_count_step_cong)
  with idx u show ?thesis by simp
qed

text \<open>
  A string with index 0 counts as one without index; three strings with the indices 0,
  \<open>null\<close> and the empty string are three parallel strings on MPPT 1.
\<close>

theorem falsy_mpptIndex_counts_on_1_witness:
  "mpptIndex (string_on (JS_number (Finite 0))) = JS_number (Finite 0)
   \<and> mpptParallelCounts [string_on (JS_number (Finite 2)), string_on (JS_number (Finite 0)),
       string_on (JS_number (Finite 1))]
     = mpptParallelCounts [string_on (JS_number (Finite 2)), string_on JS_undefined,
       string_on (JS_number (Finite 1))]
   \<and> mpptParallelCounts [string_on (JS_number (Finite 2)), string_on (JS_number (Finite 0)),
       string_on (JS_number (Finite 1))] = [(Finite 2, 1), (Finite 1, 2)]
   \<and> gpvRequired (project_with ''Mono'' [JS_number (Finite 0), JS_null, JS_empty_string])"
  using falsy_mpptIndex_counts_on_1 [of "string_on (JS_number (Finite 0))"
      "[string_on (JS_number (Finite 2))]" "[string_on (JS_number (Finite 1))]"]
  by (simp add: counting_defs)

text \<open>
  C10. The fallbacks test truthiness, so a field equal to 0 is read as an absent one: with
  \<open>vmaxInverter = 0\<close> the limit is the default (1000 V three-phase, 600 V otherwise), with
  \<open>vminMppt = 0\<close> the minimum is 80 V, and with \<open>vocCold = 0\<close> the value is the one of
  a missing report.
\<close>

theorem zero_is_read_as_absent:
  "invVmaxLimit project (Some \<lparr>details = Some (d\<lparr>vmaxInverter := JS_number (Finite 0)\<rparr>)\<rparr>)
     = (if phase (inverterConfig project) = ''Tri'' then Finite 1000 else Finite 600)
   \<and> invVmaxLimit project (Some \<lparr>details = Some (d\<lparr>vmaxInverter := JS_number (Finite 0)\<rparr>)\<rparr>)
     = invVmaxLimit project (Some \<lparr>details = Some (d\<lparr>vmaxInverter := JS_undefined\<rparr>)\<rparr>)
   \<and> invVmpMin (Some \<lparr>details = Some (d\<lparr>vminMppt := JS_number (Finite 0)\<rparr>)\<rparr>) = Finite 80
   \<and> invVmpMin (Some \<lparr>details = Some (d\<lparr>vminMppt := JS_number (Finite 0)\<rparr>)\<rparr>)
     = invVmpMin (Some \<lparr>details = Some (d\<lparr>vminMppt := JS_undefined\<rparr>)\<rparr>)
   \<and> vocColdString (Some \<lparr>details = Some (d\<lparr>vocCold := JS_number (Finite 0)\<rparr>)\<rparr>)
     = vocColdString None
   \<and> vocColdString None = Finite 0"
  by (simp add: invVmaxLimit_def invVmpMin_def vocColdString_def report_details_field_def
      isThreePhase_def)

end
